theory Spec2Isabelle
  imports Complex_Main
begin

section \<open>net-ping: the probe and the session loop of main.py\<close>

text \<open>
  The theory embeds \<^verbatim>\<open>send_ping\<close> and \<^verbatim>\<open>main\<close> of \<^verbatim>\<open>src/main.py\<close>.
  Python integers are \<open>int\<close>. Python floats (the clock readings, the response time, the
  running total and the average) are idealised as \<open>real\<close>: rounding is not modelled.
  Everything the program reads from outside (name resolution, the socket calls, the two
  clock readings) is supplied per call of \<^verbatim>\<open>send_ping\<close> by a \<open>probe_env\<close>; the world
  of a run gives the environment of the k-th call. What the program writes with
  \<^verbatim>\<open>logging\<close> is a list of structured log lines, one constructor per logging call of
  the source; the \<^verbatim>\<open>.2f\<close> rendering of a number is left to the reader of the line.
  \<^verbatim>\<open>logging.debug\<close> (line 59) prints nothing at the configured level INFO, and the
  optional \<^verbatim>\<open>--log\<close> file only selects where lines go, so neither appears below.
\<close>

subsection \<open>Exceptions\<close>

text \<open>
  The classes the handlers of \<^verbatim>\<open>send_ping\<close> tell apart, each with its message.
  \<open>ZeroDivisionError\<close> is what \<^verbatim>\<open>total_time / successful_pings\<close> raises on a zero divisor.
\<close>

datatype exn =
    Gaierror string
  | SocketTimeout string
  | ValueError string
  | ZeroDivisionError string
  | OtherException string

fun str :: "exn \<Rightarrow> string" where
  "str (Gaierror m) = m"
| "str (SocketTimeout m) = m"
| "str (ValueError m) = m"
| "str (ZeroDivisionError m) = m"
| "str (OtherException m) = m"

subsection \<open>Command line arguments\<close>

record args =
  host :: string
  timeout :: int
  count :: int
  log_opt :: "string option"

subsection \<open>Log lines\<close>

datatype log_line =
    Starting string int int       \<comment> \<open>line 92: host, count, timeout\<close>
  | Sending int string            \<comment> \<open>line 98: i + 1, host\<close>
  | FailedResolve string          \<comment> \<open>line 73 (error): host\<close>
  | TimedOut string               \<comment> \<open>line 76 (warning): host\<close>
  | ErrorOccurred string          \<comment> \<open>line 79 (error): the exception's text\<close>
  | ResponseTime int real         \<comment> \<open>line 102: i + 1, response time\<close>
  | NoResponse int                \<comment> \<open>line 106: i + 1\<close>
  | StatisticsFor string          \<comment> \<open>line 110: host\<close>
  | Packets int int int           \<comment> \<open>line 111: sent, received, lost\<close>
  | AverageResponseTime real      \<comment> \<open>line 112\<close>
  | NoResponsesReceived string    \<comment> \<open>line 114: host\<close>

subsection \<open>One probe: \<^verbatim>\<open>send_ping\<close>\<close>

text \<open>
  What the outside world does during one call: the result of \<^verbatim>\<open>socket.gethostbyname\<close>
  (an exception or the address), whether creating the socket, \<^verbatim>\<open>sendto\<close> or
  \<^verbatim>\<open>recvfrom\<close> raise, and the two readings of \<^verbatim>\<open>time.time()\<close>.
\<close>

record probe_env =
  gethostbyname :: "string \<Rightarrow> exn + string"
  socket_create :: "exn option"
  time_start :: real
  sendto :: "exn option"
  recvfrom :: "exn option"
  time_end :: real

text \<open>
  The body of the \<^verbatim>\<open>try\<close> block, lines 57 to 71. \<^verbatim>\<open>settimeout\<close> rejects a negative
  value with a \<open>ValueError\<close>. The first statement that raises ends the block.
\<close>

definition send_ping_try :: "probe_env \<Rightarrow> string \<Rightarrow> int \<Rightarrow> exn + real" where
  "send_ping_try env h t =
     (case gethostbyname env h of
        Inl e \<Rightarrow> Inl e
      | Inr target_ip \<Rightarrow>
         (case socket_create env of
            Some e \<Rightarrow> Inl e
          | None \<Rightarrow>
             if t < 0 then Inl (ValueError ''Timeout value out of range'')
             else
               let start_time = time_start env in
               (case sendto env of
                  Some e \<Rightarrow> Inl e
                | None \<Rightarrow>
                   (case recvfrom env of
                      Some e \<Rightarrow> Inl e
                    | None \<Rightarrow>
                       let end_time = time_end env;
                           response_time = (end_time - start_time) * 1000
                       in Inr response_time))))"

text \<open>
  The handlers, lines 72 to 80, in the source's order. The result is the returned
  \<^verbatim>\<open>Optional[float]\<close> together with the lines the call logged.
\<close>

definition send_ping :: "probe_env \<Rightarrow> string \<Rightarrow> int \<Rightarrow> real option \<times> log_line list" where
  "send_ping env h t =
     (case send_ping_try env h t of
        Inr response_time \<Rightarrow> (Some response_time, [])
      | Inl (Gaierror m) \<Rightarrow> (None, [FailedResolve h])
      | Inl (SocketTimeout m) \<Rightarrow> (None, [TimedOut h])
      | Inl e \<Rightarrow> (None, [ErrorOccurred (str e)]))"

subsection \<open>The session: \<^verbatim>\<open>main\<close>\<close>

record session =
  successful_pings :: int
  total_time :: real
  logged :: "log_line list"

text \<open>One pass through the loop body, lines 98 to 106, at index \<open>i\<close>.\<close>

definition loop_body :: "args \<Rightarrow> (nat \<Rightarrow> probe_env) \<Rightarrow> int \<Rightarrow> session \<Rightarrow> session" where
  "loop_body a world i st =
     (let st1 = st\<lparr>logged := logged st @ [Sending (i + 1) (host a)]\<rparr>;
          (response_time, lines) = send_ping (world (nat i)) (host a) (timeout a);
          st2 = st1\<lparr>logged := logged st1 @ lines\<rparr>
      in case response_time of
           Some rt \<Rightarrow>
             st2\<lparr>logged := logged st2 @ [ResponseTime (i + 1) rt],
                 successful_pings := successful_pings st2 + 1,
                 total_time := total_time st2 + rt\<rparr>
         | None \<Rightarrow> st2\<lparr>logged := logged st2 @ [NoResponse (i + 1)]\<rparr>)"

text \<open>
  \<^verbatim>\<open>for i in range(n)\<close>, entered at index \<open>i\<close>: the body runs for \<open>i, i + 1, ...\<close>
  while the index is below \<open>n\<close>. \<^verbatim>\<open>main\<close> enters it at 0 with \<open>n = args.count\<close>.
\<close>

function ping_loop :: "args \<Rightarrow> (nat \<Rightarrow> probe_env) \<Rightarrow> int \<Rightarrow> int \<Rightarrow> session \<Rightarrow> session" where
  "ping_loop a world i n st =
     (if i < n then ping_loop a world (i + 1) n (loop_body a world i st) else st)"
  by pat_completeness auto
termination
  by (relation "measure (\<lambda>(a, world, i, n, st). nat (n - i))") auto

declare ping_loop.simps [simp del]

text \<open>Python's true division of a float by an int.\<close>

definition truediv :: "real \<Rightarrow> int \<Rightarrow> exn + real" where
  "truediv x n =
     (if n = 0 then Inl (ZeroDivisionError ''float division by zero'')
      else Inr (x / real_of_int n))"

text \<open>Lines 108 to 114: the closing lines of the log, from the final accumulators.\<close>

definition summary :: "args \<Rightarrow> session \<Rightarrow> exn + log_line list" where
  "summary a st =
     (if successful_pings st > 0 then
        (case truediv (total_time st) (successful_pings st) of
           Inl e \<Rightarrow> Inl e
         | Inr average_time \<Rightarrow>
             Inr (logged st @
                  [StatisticsFor (host a),
                   Packets (count a) (successful_pings st) (count a - successful_pings st),
                   AverageResponseTime average_time]))
      else Inr (logged st @ [NoResponsesReceived (host a)]))"

text \<open>The accumulators and the log when the loop is entered, lines 92 to 95.\<close>

definition init :: "args \<Rightarrow> session" where
  "init a = \<lparr>successful_pings = 0, total_time = 0,
            logged = [Starting (host a) (count a) (timeout a)]\<rparr>"

text \<open>
  \<^verbatim>\<open>main\<close> from line 92 on: either the exception that escapes, or the whole log.
\<close>

definition main :: "args \<Rightarrow> (nat \<Rightarrow> probe_env) \<Rightarrow> exn + log_line list" where
  "main a world = summary a (ping_loop a world 0 (count a) (init a))"

subsection \<open>Reading a run\<close>

text \<open>
  The vocabulary the properties below are stated in: what the attempt at index \<open>i\<close>
  returned and logged, how many of the first \<open>n\<close> attempts returned a response time, and
  the sum of those response times.
\<close>

definition attempt :: "args \<Rightarrow> (nat \<Rightarrow> probe_env) \<Rightarrow> int \<Rightarrow> real option" where
  "attempt a world i = fst (send_ping (world (nat i)) (host a) (timeout a))"

definition outcome_line :: "args \<Rightarrow> (nat \<Rightarrow> probe_env) \<Rightarrow> int \<Rightarrow> log_line" where
  "outcome_line a world i =
     (case attempt a world i of
        Some rt \<Rightarrow> ResponseTime (i + 1) rt
      | None \<Rightarrow> NoResponse (i + 1))"

definition attempt_lines :: "args \<Rightarrow> (nat \<Rightarrow> probe_env) \<Rightarrow> int \<Rightarrow> log_line list" where
  "attempt_lines a world i =
     Sending (i + 1) (host a) # snd (send_ping (world (nat i)) (host a) (timeout a)) @
     [outcome_line a world i]"

definition received :: "args \<Rightarrow> (nat \<Rightarrow> probe_env) \<Rightarrow> int \<Rightarrow> int" where
  "received a world n = int (length (filter (\<lambda>i. attempt a world i \<noteq> None) [0..n - 1]))"

definition elapsed :: "args \<Rightarrow> (nat \<Rightarrow> probe_env) \<Rightarrow> int \<Rightarrow> real" where
  "elapsed a world n =
     sum_list (map (\<lambda>i. case attempt a world i of Some rt \<Rightarrow> rt | None \<Rightarrow> 0) [0..n - 1])"

text \<open>The per-attempt outcome lines (lines 102 and 106) and the opening line of an attempt.\<close>

fun is_outcome :: "log_line \<Rightarrow> bool" where
  "is_outcome (ResponseTime i rt) = True"
| "is_outcome (NoResponse i) = True"
| "is_outcome l = False"

fun is_sending :: "log_line \<Rightarrow> bool" where
  "is_sending (Sending i h) = True"
| "is_sending l = False"

text \<open>The counts a log reports: the first \<open>Packets\<close> line, if there is one.\<close>

fun packets_of :: "log_line list \<Rightarrow> (int \<times> int \<times> int) option" where
  "packets_of [] = None"
| "packets_of (Packets sent rcvd lost # ls) = Some (sent, rcvd, lost)"
| "packets_of (l # ls) = packets_of ls"

definition reported_packets :: "exn + log_line list \<Rightarrow> (int \<times> int \<times> int) option" where
  "reported_packets r = (case r of Inl e \<Rightarrow> None | Inr ls \<Rightarrow> packets_of ls)"

text \<open>
  The relation between the accumulators after \<open>attempted\<close> passes through the loop body
  that every pass keeps, whatever the clock does.
\<close>

definition stats_inv :: "int \<Rightarrow> session \<Rightarrow> bool" where
  "stats_inv attempted st \<longleftrightarrow>
     0 \<le> successful_pings st \<and> successful_pings st \<le> attempted \<and>
     (successful_pings st = 0 \<longrightarrow> total_time st = 0)"

subsection \<open>Sample environments\<close>

text \<open>
  A host that answers between the clock readings \<open>s\<close> and \<open>e\<close>, one that never
  answers, one whose name does not resolve, and one whose \<^verbatim>\<open>sendto\<close> fails.
\<close>

definition reply_env :: "real \<Rightarrow> real \<Rightarrow> probe_env" where
  "reply_env s e =
     \<lparr>gethostbyname = (\<lambda>h. Inr ''192.0.2.1''), socket_create = None, time_start = s,
      sendto = None, recvfrom = None, time_end = e\<rparr>"

definition silent_env :: probe_env where
  "silent_env = (reply_env 0 1)\<lparr>recvfrom := Some (SocketTimeout ''timed out'')\<rparr>"

definition unresolvable_env :: probe_env where
  "unresolvable_env =
     (reply_env 0 1)\<lparr>gethostbyname := (\<lambda>h. Inl (Gaierror ''Name or service not known''))\<rparr>"

definition broken_env :: "string \<Rightarrow> probe_env" where
  "broken_env m = (reply_env 0 1)\<lparr>sendto := Some (OtherException m)\<rparr>"

definition sample_args :: "int \<Rightarrow> args" where
  "sample_args n = \<lparr>host = ''example.org'', timeout = 1, count = n, log_opt = None\<rparr>"

text \<open>Replies after 10 ms and 20 ms at attempts 1 and 3, a timeout at 2, an error at 4.\<close>

definition mixed_world :: "nat \<Rightarrow> probe_env" where
  "mixed_world k =
     (if k = 0 then reply_env 0 (1 / 100)
      else if k = 1 then silent_env
      else if k = 2 then reply_env 5 (5 + 1 / 50)
      else broken_env ''x'')"

text \<open>Worlds in which every attempt meets the same environment.\<close>

definition silent_world :: "nat \<Rightarrow> probe_env" where
  "silent_world k = silent_env"

definition unresolvable_world :: "nat \<Rightarrow> probe_env" where
  "unresolvable_world k = unresolvable_env"

definition backwards_world :: "nat \<Rightarrow> probe_env" where
  "backwards_world k = reply_env 2 1"

section \<open>Properties\<close>

subsection \<open>The loop, pass by pass\<close>

lemma ping_loop_stop: "n \<le> i \<Longrightarrow> ping_loop a world i n st = st"
  by (simp add: ping_loop.simps)

lemma ping_loop_step:
  "i < n \<Longrightarrow> ping_loop a world i n st = ping_loop a world (i + 1) n (loop_body a world i st)"
  by (subst ping_loop.simps) simp

lemma ping_loop_snoc:
  "i \<le> k \<Longrightarrow> ping_loop a world i (k + 1) st = loop_body a world k (ping_loop a world i k st)"
proof (induction a world i k st rule: ping_loop.induct)
  case (1 a world i n st)
  show ?case
  proof (cases "i < n")
    case True
    then have "ping_loop a world i (n + 1) st
        = ping_loop a world (i + 1) (n + 1) (loop_body a world i st)"
      by (simp add: ping_loop_step)
    also have "\<dots> = loop_body a world n (ping_loop a world (i + 1) n (loop_body a world i st))"
      using True "1.IH" by simp
    also have "\<dots> = loop_body a world n (ping_loop a world i n st)"
      using True by (simp add: ping_loop_step)
    finally show ?thesis .
  next
    case False
    with "1.prems" have "i = n" by simp
    then show ?thesis
      by (simp add: ping_loop_step ping_loop_stop)
  qed
qed

lemma ping_loop_split:
  "i \<le> k \<Longrightarrow> k \<le> n \<Longrightarrow>
   ping_loop a world i n st = ping_loop a world k n (ping_loop a world i k st)"
proof (induction a world i k st rule: ping_loop.induct)
  case (1 a world i k st)
  show ?case
  proof (cases "i < k")
    case True
    with 1 show ?thesis by (simp add: ping_loop_step)
  next
    case False
    with "1.prems" show ?thesis by (simp add: ping_loop_stop)
  qed
qed

lemma loop_body_Some:
  "attempt a world i = Some rt \<Longrightarrow>
   loop_body a world i st =
     st\<lparr>logged := logged st @ attempt_lines a world i,
        successful_pings := successful_pings st + 1,
        total_time := total_time st + rt\<rparr>"
  by (auto simp: loop_body_def attempt_def attempt_lines_def outcome_line_def Let_def
      split: prod.splits)

lemma loop_body_None:
  "attempt a world i = None \<Longrightarrow>
   loop_body a world i st = st\<lparr>logged := logged st @ attempt_lines a world i\<rparr>"
  by (auto simp: loop_body_def attempt_def attempt_lines_def outcome_line_def Let_def
      split: prod.splits)

lemma received_Suc:
  "0 \<le> k \<Longrightarrow> received a world (k + 1) =
     received a world k + (if attempt a world k = None then 0 else 1)"
  by (simp add: received_def upto_rec2)

lemma elapsed_Suc:
  "0 \<le> k \<Longrightarrow> elapsed a world (k + 1) =
     elapsed a world k + (case attempt a world k of Some rt \<Rightarrow> rt | None \<Rightarrow> 0)"
  by (simp add: elapsed_def upto_rec2)

lemma loop_state:
  assumes "0 \<le> n"
  shows "ping_loop a world 0 n (init a) =
    \<lparr>successful_pings = received a world n, total_time = elapsed a world n,
     logged = Starting (host a) (count a) (timeout a) #
              concat (map (attempt_lines a world) [0..n - 1])\<rparr>"
  using assms
proof (induction n rule: int_ge_induct)
  case base
  show ?case by (simp add: ping_loop_stop init_def received_def elapsed_def)
next
  case (step k)
  show ?case
  proof (cases "attempt a world k")
    case None
    with step show ?thesis
      by (simp add: ping_loop_snoc loop_body_None received_Suc elapsed_Suc upto_rec2)
  next
    case (Some rt)
    with step show ?thesis
      by (simp add: ping_loop_snoc loop_body_Some received_Suc elapsed_Suc upto_rec2)
  qed
qed

lemma final_state:
  "ping_loop a world 0 (count a) (init a) =
    \<lparr>successful_pings = received a world (count a), total_time = elapsed a world (count a),
     logged = Starting (host a) (count a) (timeout a) #
              concat (map (attempt_lines a world) [0..count a - 1])\<rparr>"
proof (cases "0 \<le> count a")
  case True
  then show ?thesis by (rule loop_state)
next
  case False
  then show ?thesis
    by (simp add: ping_loop_stop init_def received_def elapsed_def)
qed

subsection \<open>The whole log of a run\<close>

lemma main_eq:
  "main a world =
     Inr (Starting (host a) (count a) (timeout a) #
          concat (map (attempt_lines a world) [0..count a - 1]) @
          (if 0 < received a world (count a)
           then [StatisticsFor (host a),
                 Packets (count a) (received a world (count a))
                   (count a - received a world (count a)),
                 AverageResponseTime
                   (elapsed a world (count a) / real_of_int (received a world (count a)))]
           else [NoResponsesReceived (host a)]))"
  by (simp add: main_def final_state summary_def truediv_def)

lemma send_ping_lines:
  "snd (send_ping env h t) = [] \<or> snd (send_ping env h t) = [FailedResolve h] \<or>
   snd (send_ping env h t) = [TimedOut h] \<or> (\<exists>m. snd (send_ping env h t) = [ErrorOccurred m])"
  by (simp add: send_ping_def split: sum.splits exn.splits)

lemma packets_of_attempt_lines: "packets_of (attempt_lines a world i @ ls) = packets_of ls"
  using send_ping_lines [of "world (nat i)" "host a" "timeout a"]
  by (auto simp: attempt_lines_def outcome_line_def split: option.splits)

lemma packets_of_concat:
  "packets_of (concat (map (attempt_lines a world) js) @ ls) = packets_of ls"
  by (induction js) (simp_all add: packets_of_attempt_lines)

lemma sample_args_sel:
  "host (sample_args n) = ''example.org''"
  "timeout (sample_args n) = 1"
  "count (sample_args n) = n"
  by (simp_all add: sample_args_def)

lemma silent_attempt: "attempt (sample_args n) silent_world i = None"
  by (simp add: attempt_def send_ping_def send_ping_try_def silent_world_def silent_env_def
      reply_env_def)

subsection \<open>Counts of the summary\<close>

text \<open>
  C1, as the program has it. The number of successful attempts is what the loop leaves in
  \<open>successful_pings\<close>. When at least one attempt succeeded, the summary reports
  sent = count, received = the number of successful attempts and lost = sent - received.
  When none did (also for a count of zero), the program takes the other branch of line 108
  and prints the no-responses line only: the log then reports no counts at all.
\<close>

theorem summary_counts:
  "successful_pings (ping_loop a world 0 (count a) (init a)) = received a world (count a) \<and>
   reported_packets (main a world) =
     (if 0 < received a world (count a)
      then Some (count a, received a world (count a), count a - received a world (count a))
      else None)"
  by (simp add: main_eq final_state reported_packets_def packets_of_concat)

text \<open>
  One attempt that times out: the run has count 1 and no success, and its log carries no
  sent, received or lost figure, so the summary does not report sent = 1.
\<close>

theorem summary_counts_every_run_counterexample:
  "0 \<le> count (sample_args 1) \<and>
   reported_packets (main (sample_args 1) silent_world) = None \<and>
   reported_packets (main (sample_args 1) silent_world) \<noteq> Some (1, 0, 1)"
  by (simp add: main_eq reported_packets_def packets_of_attempt_lines received_def
      silent_attempt sample_args_sel)

theorem summary_counts_witness:
  "reported_packets (main (sample_args 4) mixed_world) = Some (4, 2, 2)"
  using summary_counts [of "sample_args 4" mixed_world]
  by (simp add: received_def attempt_def send_ping_def send_ping_try_def mixed_world_def
      silent_env_def broken_env_def reply_env_def sample_args_sel upto_rec1)

subsection \<open>The average\<close>

text \<open>
  C2. After the loop, when \<open>successful_pings\<close> is positive, the log ends with the
  statistics block and the average it reports is \<open>total_time\<close> divided by
  \<open>successful_pings\<close>. For count 4 and the attempts reply after 10 ms, timeout, reply
  after 20 ms, other error, the run reports sent 4, received 2, lost 2 and average 15.
\<close>

theorem average_latency:
  "(0 < successful_pings (ping_loop a world 0 (count a) (init a)) \<longrightarrow>
     main a world =
       Inr (logged (ping_loop a world 0 (count a) (init a)) @
            [StatisticsFor (host a),
             Packets (count a) (successful_pings (ping_loop a world 0 (count a) (init a)))
               (count a - successful_pings (ping_loop a world 0 (count a) (init a))),
             AverageResponseTime
               (total_time (ping_loop a world 0 (count a) (init a)) /
                real_of_int (successful_pings (ping_loop a world 0 (count a) (init a))))])) \<and>
   main (sample_args 4) mixed_world =
     Inr [Starting ''example.org'' 4 1,
          Sending 1 ''example.org'', ResponseTime 1 10,
          Sending 2 ''example.org'', TimedOut ''example.org'', NoResponse 2,
          Sending 3 ''example.org'', ResponseTime 3 20,
          Sending 4 ''example.org'', ErrorOccurred ''x'', NoResponse 4,
          StatisticsFor ''example.org'', Packets 4 2 2, AverageResponseTime 15]"
proof
  show "0 < successful_pings (ping_loop a world 0 (count a) (init a)) \<longrightarrow>
     main a world =
       Inr (logged (ping_loop a world 0 (count a) (init a)) @
            [StatisticsFor (host a),
             Packets (count a) (successful_pings (ping_loop a world 0 (count a) (init a)))
               (count a - successful_pings (ping_loop a world 0 (count a) (init a))),
             AverageResponseTime
               (total_time (ping_loop a world 0 (count a) (init a)) /
                real_of_int (successful_pings (ping_loop a world 0 (count a) (init a))))])"
    by (simp add: main_def summary_def truediv_def)
  show "main (sample_args 4) mixed_world =
     Inr [Starting ''example.org'' 4 1,
          Sending 1 ''example.org'', ResponseTime 1 10,
          Sending 2 ''example.org'', TimedOut ''example.org'', NoResponse 2,
          Sending 3 ''example.org'', ResponseTime 3 20,
          Sending 4 ''example.org'', ErrorOccurred ''x'', NoResponse 4,
          StatisticsFor ''example.org'', Packets 4 2 2, AverageResponseTime 15]"
    by (simp add: main_def init_def ping_loop.simps loop_body_def send_ping_def
        send_ping_try_def mixed_world_def silent_env_def broken_env_def reply_env_def
        sample_args_def summary_def truediv_def)
qed

theorem average_latency_witness:
  "0 < successful_pings
         (ping_loop (sample_args 4) mixed_world 0 (count (sample_args 4)) (init (sample_args 4))) \<and>
   total_time
       (ping_loop (sample_args 4) mixed_world 0 (count (sample_args 4)) (init (sample_args 4))) /
     real_of_int (successful_pings
       (ping_loop (sample_args 4) mixed_world 0 (count (sample_args 4)) (init (sample_args 4))))
     = 15"
  using average_latency [of "sample_args 4" mixed_world]
  by (simp add: loop_state received_def elapsed_def attempt_def send_ping_def
      send_ping_try_def mixed_world_def silent_env_def broken_env_def reply_env_def
      sample_args_sel upto_rec1)

subsection \<open>Failures of a probe\<close>

lemma send_ping_raised:
  "send_ping_try env h t = Inl e \<Longrightarrow>
   send_ping env h t =
     (None, [case e of Gaierror m \<Rightarrow> FailedResolve h | SocketTimeout m \<Rightarrow> TimedOut h
             | _ \<Rightarrow> ErrorOccurred (str e)])"
  by (cases e) (simp_all add: send_ping_def)

lemma filter_sending_attempt_lines:
  "filter is_sending (attempt_lines a world i) = [Sending (i + 1) (host a)]"
  using send_ping_lines [of "world (nat i)" "host a" "timeout a"]
  by (auto simp: attempt_lines_def outcome_line_def split: option.splits)

lemma filter_sending_concat:
  "filter is_sending (concat (map (attempt_lines a world) js)) =
   map (\<lambda>i. Sending (i + 1) (host a)) js"
  by (induction js) (simp_all add: filter_sending_attempt_lines)

text \<open>
  C3, as the program has it. Whatever exception the body of the probe raises (resolution
  failure, timeout, anything else), \<^verbatim>\<open>send_ping\<close> lets none escape: it logs one line that
  names the kind of failure and returns \<open>None\<close>, the same value for every kind. The loop
  goes on to the next attempt, so every index below count is attempted, and the run
  completes with a log; when no attempt succeeded the log ends with the no-responses line.
\<close>

theorem failures_are_logged_and_skipped:
  "(send_ping_try env h t = Inl e \<longrightarrow>
      send_ping env h t =
        (None, [case e of Gaierror m \<Rightarrow> FailedResolve h | SocketTimeout m \<Rightarrow> TimedOut h
                | _ \<Rightarrow> ErrorOccurred (str e)])) \<and>
   (\<exists>ls. main a world = Inr ls \<and>
      filter is_sending ls = map (\<lambda>i. Sending (i + 1) (host a)) [0..count a - 1] \<and>
      (received a world (count a) = 0 \<longrightarrow> last ls = NoResponsesReceived (host a)))"
proof
  show "send_ping_try env h t = Inl e \<longrightarrow>
      send_ping env h t =
        (None, [case e of Gaierror m \<Rightarrow> FailedResolve h | SocketTimeout m \<Rightarrow> TimedOut h
                | _ \<Rightarrow> ErrorOccurred (str e)])"
    by (simp add: send_ping_raised)
  show "\<exists>ls. main a world = Inr ls \<and>
      filter is_sending ls = map (\<lambda>i. Sending (i + 1) (host a)) [0..count a - 1] \<and>
      (received a world (count a) = 0 \<longrightarrow> last ls = NoResponsesReceived (host a))"
    by (simp add: main_eq filter_sending_concat)
qed

text \<open>
  A name that does not resolve, a reply that never comes and a failing \<^verbatim>\<open>sendto\<close> are
  three kinds of failure, and the value \<^verbatim>\<open>send_ping\<close> returns is \<open>None\<close> in all three:
  the returned value does not tell the kinds apart.
\<close>

theorem failure_kind_not_returned_counterexample:
  "send_ping_try unresolvable_env ''example.org'' 1 =
     Inl (Gaierror ''Name or service not known'') \<and>
   send_ping_try silent_env ''example.org'' 1 = Inl (SocketTimeout ''timed out'') \<and>
   send_ping_try (broken_env ''x'') ''example.org'' 1 = Inl (OtherException ''x'') \<and>
   fst (send_ping unresolvable_env ''example.org'' 1) = None \<and>
   fst (send_ping silent_env ''example.org'' 1) = None \<and>
   fst (send_ping (broken_env ''x'') ''example.org'' 1) = None"
  by (simp add: send_ping_def send_ping_try_def unresolvable_env_def silent_env_def
      broken_env_def reply_env_def)

theorem failures_are_logged_and_skipped_witness:
  "send_ping_try unresolvable_env ''example.org'' 1 =
     Inl (Gaierror ''Name or service not known'') \<and>
   send_ping unresolvable_env ''example.org'' 1 = (None, [FailedResolve ''example.org'']) \<and>
   received (sample_args 2) unresolvable_world (count (sample_args 2)) = 0 \<and>
   main (sample_args 2) unresolvable_world =
     Inr [Starting ''example.org'' 2 1,
          Sending 1 ''example.org'', FailedResolve ''example.org'', NoResponse 1,
          Sending 2 ''example.org'', FailedResolve ''example.org'', NoResponse 2,
          NoResponsesReceived ''example.org'']"
  using failures_are_logged_and_skipped
    [of unresolvable_env "''example.org''" 1 "Gaierror ''Name or service not known''"
      "sample_args 2" unresolvable_world]
  by (simp add: main_eq received_def attempt_def attempt_lines_def outcome_line_def
      send_ping_def send_ping_try_def unresolvable_world_def unresolvable_env_def reply_env_def
      sample_args_sel upto_rec1)

subsection \<open>The response time\<close>

text \<open>
  C4, as the program has it. A response time that \<^verbatim>\<open>send_ping\<close> returns is the
  difference of the two clock readings times 1000, unchanged: nothing clamps it. It is
  non-negative exactly when the second reading is not before the first.
\<close>

theorem response_time_value:
  "send_ping env h t = (Some rt, ls) \<Longrightarrow>
   rt = (time_end env - time_start env) * 1000 \<and>
   (0 \<le> rt \<longleftrightarrow> time_start env \<le> time_end env)"
  by (auto simp: send_ping_def send_ping_try_def Let_def
      split: sum.splits option.splits if_splits exn.splits)

text \<open>
  The wall clock is set back by a second between the two readings (2, then 1): the
  probe succeeds and the response time it returns is -1000 ms, not 0.
\<close>

theorem response_time_negative_counterexample:
  "send_ping (reply_env 2 1) ''example.org'' 1 = (Some (- 1000), [])"
  by (simp add: send_ping_def send_ping_try_def reply_env_def)

theorem response_time_value_witness:
  "send_ping (reply_env 0 (1 / 100)) ''example.org'' 1 = (Some 10, []) \<and>
   (10::real) = (time_end (reply_env 0 (1 / 100)) - time_start (reply_env 0 (1 / 100))) * 1000 \<and>
   ((0::real) \<le> 10 \<longleftrightarrow> time_start (reply_env 0 (1 / 100)) \<le> time_end (reply_env 0 (1 / 100)))"
proof -
  have h: "send_ping (reply_env 0 (1 / 100)) ''example.org'' 1 = (Some 10, [])"
    by (simp add: send_ping_def send_ping_try_def reply_env_def)
  show ?thesis using h response_time_value [OF h] by simp
qed

subsection \<open>The accumulators\<close>

lemma stats_inv_step: "stats_inv i st \<Longrightarrow> stats_inv (i + 1) (loop_body a world i st)"
  by (cases "attempt a world i") (auto simp: stats_inv_def loop_body_None loop_body_Some)

lemma stats_inv_loop: "0 \<le> k \<Longrightarrow> stats_inv k (ping_loop a world 0 k (init a))"
proof (induction k rule: int_ge_induct)
  case base
  show ?case by (simp add: ping_loop_stop stats_inv_def init_def)
next
  case (step k)
  then show ?case by (simp add: ping_loop_snoc stats_inv_step)
qed

lemma elapsed_nonneg:
  "0 \<le> k \<Longrightarrow> (\<forall>i rt. 0 \<le> i \<and> i < k \<and> attempt a world i = Some rt \<longrightarrow> 0 \<le> rt) \<Longrightarrow>
   0 \<le> elapsed a world k"
  unfolding elapsed_def
  by (rule sum_list_nonneg) (auto split: option.splits)

text \<open>
  C5, as the program has it. After \<open>k\<close> passes of a run (\<open>0 \<le> k \<le> count\<close>, the rest of
  the run continuing from that state) the accumulators satisfy \<open>stats_inv k\<close>:
  \<open>successful_pings\<close> is between 0 and the number of attempts made, and it is 0 only if
  \<open>total_time\<close> is 0; every pass keeps this. \<open>total_time\<close> is non-negative after a pass
  if it was before and the response time of that pass, if any, is non-negative; so it is
  non-negative after \<open>k\<close> passes when no response time so far was negative.
\<close>

theorem stats_invariant:
  "(stats_inv i st \<longrightarrow> stats_inv (i + 1) (loop_body a world i st)) \<and>
   (0 \<le> total_time st \<and> (\<forall>rt. attempt a world i = Some rt \<longrightarrow> 0 \<le> rt) \<longrightarrow>
      0 \<le> total_time (loop_body a world i st)) \<and>
   (0 \<le> k \<and> k \<le> count a \<longrightarrow>
      ping_loop a world 0 (count a) (init a) =
        ping_loop a world k (count a) (ping_loop a world 0 k (init a)) \<and>
      stats_inv k (ping_loop a world 0 k (init a)) \<and>
      ((\<forall>j rt. 0 \<le> j \<and> j < k \<and> attempt a world j = Some rt \<longrightarrow> 0 \<le> rt) \<longrightarrow>
         0 \<le> total_time (ping_loop a world 0 k (init a))))"
proof (intro conjI impI)
  assume "stats_inv i st"
  then show "stats_inv (i + 1) (loop_body a world i st)" by (rule stats_inv_step)
next
  assume "0 \<le> total_time st \<and> (\<forall>rt. attempt a world i = Some rt \<longrightarrow> 0 \<le> rt)"
  then show "0 \<le> total_time (loop_body a world i st)"
    by (cases "attempt a world i") (simp_all add: loop_body_None loop_body_Some)
next
  assume "0 \<le> k \<and> k \<le> count a"
  then show "ping_loop a world 0 (count a) (init a) =
        ping_loop a world k (count a) (ping_loop a world 0 k (init a))"
    by (simp add: ping_loop_split)
next
  assume "0 \<le> k \<and> k \<le> count a"
  then show "stats_inv k (ping_loop a world 0 k (init a))" by (simp add: stats_inv_loop)
next
  assume "0 \<le> k \<and> k \<le> count a"
    and "\<forall>j rt. 0 \<le> j \<and> j < k \<and> attempt a world j = Some rt \<longrightarrow> 0 \<le> rt"
  then show "0 \<le> total_time (ping_loop a world 0 k (init a))"
    by (simp add: loop_state elapsed_nonneg)
qed

text \<open>
  A run of one attempt during which the wall clock is set back: the attempt succeeds with
  -1000 ms, and \<open>total_time\<close> is negative when the loop ends.
\<close>

theorem total_time_negative_counterexample:
  "count (sample_args 1) = 1 \<and>
   total_time (ping_loop (sample_args 1) backwards_world 0 1 (init (sample_args 1))) = - 1000 \<and>
   \<not> 0 \<le> total_time (ping_loop (sample_args 1) backwards_world 0 1 (init (sample_args 1)))"
  by (simp add: ping_loop.simps loop_body_def send_ping_def send_ping_try_def
      backwards_world_def reply_env_def sample_args_def init_def)

lemma mixed_attempt_0: "attempt (sample_args n) mixed_world 0 = Some 10"
  by (simp add: attempt_def send_ping_def send_ping_try_def mixed_world_def reply_env_def
      sample_args_sel)

theorem stats_invariant_witness:
  "stats_inv 0 (init (sample_args 4)) \<and>
   stats_inv (0 + 1) (loop_body (sample_args 4) mixed_world 0 (init (sample_args 4))) \<and>
   0 \<le> total_time (init (sample_args 4)) \<and>
   0 \<le> total_time (loop_body (sample_args 4) mixed_world 0 (init (sample_args 4))) \<and>
   (0::int) \<le> 1 \<and> 1 \<le> count (sample_args 4) \<and>
   stats_inv 1 (ping_loop (sample_args 4) mixed_world 0 1 (init (sample_args 4))) \<and>
   0 \<le> total_time (ping_loop (sample_args 4) mixed_world 0 1 (init (sample_args 4)))"
proof -
  have h1: "stats_inv 0 (init (sample_args 4))"
    by (simp add: stats_inv_def init_def)
  have h2: "0 \<le> total_time (init (sample_args 4)) \<and>
      (\<forall>rt. attempt (sample_args 4) mixed_world 0 = Some rt \<longrightarrow> 0 \<le> rt)"
    by (simp add: init_def mixed_attempt_0)
  have h3: "(0::int) \<le> 1 \<and> 1 \<le> count (sample_args 4)"
    by (simp add: sample_args_sel)
  have h4: "\<forall>j rt. 0 \<le> j \<and> j < 1 \<and> attempt (sample_args 4) mixed_world j = Some rt \<longrightarrow> 0 \<le> rt"
  proof (intro allI impI)
    fix j :: int and rt :: real
    assume "0 \<le> j \<and> j < 1 \<and> attempt (sample_args 4) mixed_world j = Some rt"
    then have "j = 0" and "attempt (sample_args 4) mixed_world j = Some rt" by simp_all
    then show "0 \<le> rt" by (simp add: mixed_attempt_0)
  qed
  show ?thesis
    using stats_invariant [of 0 "init (sample_args 4)" "sample_args 4" mixed_world 1] h1 h2 h3 h4
    by blast
qed

subsection \<open>Runs without a response\<close>

lemma received_0:
  "(\<forall>i. 0 \<le> i \<and> i < n \<longrightarrow> attempt a world i = None) \<Longrightarrow> received a world n = 0"
  by (auto simp: received_def filter_empty_conv)

text \<open>
  C6. When every attempt of a run fails, \<open>successful_pings\<close> ends at 0 and the log ends
  with the no-responses line, with no average. The division of line 109 is reached only
  under \<open>successful_pings > 0\<close>: for accumulators with no success the summary is the
  no-responses line without any division, and for no accumulators at all, hence in no run,
  does the summary or \<^verbatim>\<open>main\<close> end in the division's exception.
\<close>

theorem no_responses_summary:
  "((\<forall>i. 0 \<le> i \<and> i < count a \<longrightarrow> attempt a world i = None) \<longrightarrow>
      successful_pings (ping_loop a world 0 (count a) (init a)) = 0 \<and>
      main a world =
        Inr (logged (ping_loop a world 0 (count a) (init a)) @
             [NoResponsesReceived (host a)])) \<and>
   (successful_pings st \<le> 0 \<longrightarrow>
      summary a st = Inr (logged st @ [NoResponsesReceived (host a)])) \<and>
   summary a st \<noteq> Inl e \<and> main a world \<noteq> Inl e"
  by (auto simp: main_def final_state received_0 summary_def truediv_def)

theorem no_responses_summary_witness:
  "attempt (sample_args 3) silent_world 0 = None \<and>
   attempt (sample_args 3) silent_world 1 = None \<and>
   attempt (sample_args 3) silent_world 2 = None \<and>
   successful_pings
     (ping_loop (sample_args 3) silent_world 0 (count (sample_args 3)) (init (sample_args 3)))
     = 0 \<and>
   main (sample_args 3) silent_world =
     Inr [Starting ''example.org'' 3 1,
          Sending 1 ''example.org'', TimedOut ''example.org'', NoResponse 1,
          Sending 2 ''example.org'', TimedOut ''example.org'', NoResponse 2,
          Sending 3 ''example.org'', TimedOut ''example.org'', NoResponse 3,
          NoResponsesReceived ''example.org'']"
proof -
  have h: "\<forall>i. 0 \<le> i \<and> i < count (sample_args 3) \<longrightarrow>
      attempt (sample_args 3) silent_world i = None"
    by (simp add: silent_attempt)
  have "init (sample_args 3) =
      \<lparr>successful_pings = 0, total_time = 0, logged = [Starting ''example.org'' 3 1]\<rparr>"
    by (simp add: init_def sample_args_sel)
  then have "logged (ping_loop (sample_args 3) silent_world 0 (count (sample_args 3))
        (init (sample_args 3))) =
     [Starting ''example.org'' 3 1,
      Sending 1 ''example.org'', TimedOut ''example.org'', NoResponse 1,
      Sending 2 ''example.org'', TimedOut ''example.org'', NoResponse 2,
      Sending 3 ''example.org'', TimedOut ''example.org'', NoResponse 3]"
    by (simp add: ping_loop.simps loop_body_def send_ping_def send_ping_try_def
        silent_world_def silent_env_def reply_env_def sample_args_sel)
  with h no_responses_summary [of "sample_args 3" silent_world] show ?thesis
    by (simp add: sample_args_sel silent_attempt)
qed

subsection \<open>Runs of no attempt\<close>

text \<open>
  C7, as the program has it. With a count of 0 the loop body never runs (the loop returns
  the state it was given) and the log is the starting line followed by the no-responses
  line: the program prints no sent, received or lost figure and no average.
\<close>

theorem zero_count_run:
  "count a = 0 \<Longrightarrow>
   ping_loop a world 0 (count a) st = st \<and>
   main a world = Inr [Starting (host a) 0 (timeout a), NoResponsesReceived (host a)] \<and>
   reported_packets (main a world) = None"
  by (simp add: ping_loop_stop main_eq received_def reported_packets_def)

text \<open>
  The run with count 0: its log reports no counts, so it does not report
  sent = 0, received = 0, lost = 0.
\<close>

theorem zero_count_counts_counterexample:
  "count (sample_args 0) = 0 \<and>
   reported_packets (main (sample_args 0) mixed_world) = None \<and>
   reported_packets (main (sample_args 0) mixed_world) \<noteq> Some (0, 0, 0)"
  by (simp add: main_def init_def summary_def ping_loop.simps reported_packets_def
      sample_args_def)

theorem zero_count_run_witness:
  "count (sample_args 0) = 0 \<and>
   ping_loop (sample_args 0) mixed_world 0 (count (sample_args 0)) (init (sample_args 0)) =
     init (sample_args 0) \<and>
   main (sample_args 0) mixed_world =
     Inr [Starting ''example.org'' 0 1, NoResponsesReceived ''example.org'']"
proof -
  have h: "count (sample_args 0) = 0" by (simp add: sample_args_sel)
  show ?thesis
    using h zero_count_run [OF h, of mixed_world "init (sample_args 0)"]
    by (simp add: sample_args_sel)
qed

text \<open>
  C10. With a negative count the loop body runs zero times (the loop returns the state it
  was given, whatever the world, so no probe is made); from accumulators without a success,
  as lines 94 and 95 set them, the loop and the summary (lines 97 to 114) give what they
  give for a count of 0; no exception escapes; and the log of the run is the starting
  line, which shows the count as given, followed by the no-responses line.
\<close>

theorem negative_count_run:
  "count a < 0 \<Longrightarrow>
   ping_loop a world 0 (count a) st = st \<and>
   (successful_pings st = 0 \<longrightarrow>
      summary a (ping_loop a world 0 (count a) st) =
      summary (a\<lparr>count := 0\<rparr>)
        (ping_loop (a\<lparr>count := 0\<rparr>) world 0 (count (a\<lparr>count := 0\<rparr>)) st)) \<and>
   main a world =
     Inr [Starting (host a) (count a) (timeout a), NoResponsesReceived (host a)] \<and>
   main (a\<lparr>count := 0\<rparr>) world =
     Inr [Starting (host a) 0 (timeout a), NoResponsesReceived (host a)]"
  by (simp add: ping_loop_stop main_eq received_def summary_def)

theorem negative_count_run_witness:
  "count (sample_args (- 3)) < 0 \<and>
   successful_pings (init (sample_args (- 3))) = 0 \<and>
   ping_loop (sample_args (- 3)) mixed_world 0 (count (sample_args (- 3)))
     (init (sample_args (- 3))) = init (sample_args (- 3)) \<and>
   main (sample_args (- 3)) mixed_world =
     Inr [Starting ''example.org'' (- 3) 1, NoResponsesReceived ''example.org''] \<and>
   main ((sample_args (- 3))\<lparr>count := 0\<rparr>) mixed_world =
     Inr [Starting ''example.org'' 0 1, NoResponsesReceived ''example.org'']"
proof -
  have h: "count (sample_args (- 3)) < 0" by (simp add: sample_args_sel)
  have h0: "successful_pings (init (sample_args (- 3))) = 0" by (simp add: init_def)
  show ?thesis
    using h h0 negative_count_run [OF h, of mixed_world "init (sample_args (- 3))"]
    by (simp add: sample_args_sel)
qed

subsection \<open>The outcome lines\<close>

lemma filter_outcome_attempt_lines:
  "filter is_outcome (attempt_lines a world i) = [outcome_line a world i]"
  using send_ping_lines [of "world (nat i)" "host a" "timeout a"]
  by (auto simp: attempt_lines_def outcome_line_def split: option.splits)

lemma filter_outcome_concat:
  "filter is_outcome (concat (map (attempt_lines a world) js)) = map (outcome_line a world) js"
  by (induction js) (simp_all add: filter_outcome_attempt_lines)

text \<open>
  C8. For a count of at least 0, the outcome lines of the log (response time or no
  response) are exactly the outcome lines of the attempts 0, 1, ..., count - 1 in this
  order, one for each, so there are count of them.
\<close>

theorem outcome_events:
  "0 \<le> count a \<Longrightarrow>
   \<exists>ls. main a world = Inr ls \<and>
        filter is_outcome ls = map (outcome_line a world) [0..count a - 1] \<and>
        int (length (filter is_outcome ls)) = count a"
  by (simp add: main_eq filter_outcome_concat)

theorem outcome_events_witness:
  "0 \<le> count (sample_args 4) \<and>
   (\<exists>ls. main (sample_args 4) mixed_world = Inr ls \<and>
      filter is_outcome ls = [ResponseTime 1 10, NoResponse 2, ResponseTime 3 20, NoResponse 4] \<and>
      int (length (filter is_outcome ls)) = 4)"
proof -
  have h: "0 \<le> count (sample_args 4)" by (simp add: sample_args_sel)
  have m: "map (outcome_line (sample_args 4) mixed_world) [0..count (sample_args 4) - 1] =
      [ResponseTime 1 10, NoResponse 2, ResponseTime 3 20, NoResponse 4]"
    by (simp add: outcome_line_def attempt_def send_ping_def send_ping_try_def mixed_world_def
        silent_env_def broken_env_def reply_env_def sample_args_sel upto_rec1)
  show ?thesis
    using h m outcome_events [OF h, of mixed_world]
    by (auto simp: sample_args_sel)
qed

subsection \<open>A failed attempt leaves the accumulators alone\<close>

text \<open>
  C9. A pass of the loop body whose probe returns \<open>None\<close> leaves \<open>successful_pings\<close> and
  \<open>total_time\<close> as they were; the loop then goes on at the next index with that state.
\<close>

theorem failed_attempt_frame:
  "(attempt a world i = None \<longrightarrow>
      successful_pings (loop_body a world i st) = successful_pings st \<and>
      total_time (loop_body a world i st) = total_time st) \<and>
   (i < n \<longrightarrow>
      ping_loop a world i n st = ping_loop a world (i + 1) n (loop_body a world i st))"
  by (simp add: loop_body_None ping_loop_step)

theorem failed_attempt_frame_witness:
  "attempt (sample_args 4) mixed_world 1 = None \<and>
   successful_pings
     (loop_body (sample_args 4) mixed_world 1
        \<lparr>successful_pings = 1, total_time = 10, logged = []\<rparr>) = 1 \<and>
   total_time
     (loop_body (sample_args 4) mixed_world 1
        \<lparr>successful_pings = 1, total_time = 10, logged = []\<rparr>) = 10 \<and>
   (1::int) < 4"
proof -
  have h: "attempt (sample_args 4) mixed_world 1 = None"
    by (simp add: attempt_def send_ping_def send_ping_try_def mixed_world_def silent_env_def
        reply_env_def sample_args_sel)
  show ?thesis
    using h failed_attempt_frame [of "sample_args 4" mixed_world 1
        "\<lparr>successful_pings = 1, total_time = 10, logged = []\<rparr>" 4]
    by simp
qed

end
